theory Spec2Isabelle
  imports Complex_Main
begin

section \<open>JavaScript values\<close>

text \<open>
  The functions of \<^verbatim>\<open>assets/notifications.js\<close> receive and return untyped JavaScript
  values, so the model has a type of values with the two operators the source applies
  to them: \<^verbatim>\<open>a || b\<close> (which tests \<^verbatim>\<open>ToBoolean(a)\<close>) and \<^verbatim>\<open>a !== b\<close>.
  A number is NaN, an infinity or a finite rational; the two zeros are one value, since
  neither operator tells them apart. An object is known by its reference.
\<close>

datatype jsnum = NaN | PosInf | NegInf | Finite rat

datatype jsval =
    JUndefined
  | JNull
  | JBool bool
  | JNumber jsnum
  | JString string
  | JBigInt int
  | JSymbol nat
  | JObject nat

fun truthy :: "jsval \<Rightarrow> bool" where
  "truthy JUndefined = False"
| "truthy JNull = False"
| "truthy (JBool b) = b"
| "truthy (JNumber NaN) = False"
| "truthy (JNumber PosInf) = True"
| "truthy (JNumber NegInf) = True"
| "truthy (JNumber (Finite q)) = (q \<noteq> 0)"
| "truthy (JString s) = (s \<noteq> [])"
| "truthy (JBigInt i) = (i \<noteq> 0)"
| "truthy (JSymbol _) = True"
| "truthy (JObject _) = True"

fun num_eq :: "jsnum \<Rightarrow> jsnum \<Rightarrow> bool" where
  "num_eq NaN _ = False"
| "num_eq _ NaN = False"
| "num_eq a b = (a = b)"

fun strict_eq :: "jsval \<Rightarrow> jsval \<Rightarrow> bool" where
  "strict_eq JUndefined JUndefined = True"
| "strict_eq JNull JNull = True"
| "strict_eq (JBool a) (JBool b) = (a = b)"
| "strict_eq (JNumber a) (JNumber b) = num_eq a b"
| "strict_eq (JString a) (JString b) = (a = b)"
| "strict_eq (JBigInt a) (JBigInt b) = (a = b)"
| "strict_eq (JSymbol a) (JSymbol b) = (a = b)"
| "strict_eq (JObject a) (JObject b) = (a = b)"
| "strict_eq _ _ = False"

definition js_or :: "jsval \<Rightarrow> jsval \<Rightarrow> jsval" where
  \<comment> \<open>\<^verbatim>\<open>a || b\<close>\<close>
  "js_or a b = (if truthy a then a else b)"

section \<open>The platform and the page's state\<close>

text \<open>
  What the browser does is a parameter of the model. The record \<open>platform\<close> fixes how
  each platform entry point used by the source behaves; the record \<open>world\<close> is the
  mutable state a call can read or change: the permission the platform currently
  reports, the notifications on display, and a log of the calls made to the permission
  prompt and to the notification constructor.

  The entry points that the source wraps in \<^verbatim>\<open>try\<close> may throw: the call
  \<^verbatim>\<open>Notification.requestPermission()\<close>, the constructor, the assignment to
  \<^verbatim>\<open>onclick\<close>, \<^verbatim>\<open>window.focus()\<close>, and the reads of \<^verbatim>\<open>window.top\<close> and
  \<^verbatim>\<open>window.self\<close>. The test \<^verbatim>\<open>'Notification' in window\<close> and the read of the
  static attribute \<^verbatim>\<open>Notification.permission\<close> yield a value.
\<close>

record notification_options =
  n_body :: jsval
  n_tag :: jsval

datatype handler = FocusWindow

record notification =
  n_title :: jsval
  n_options :: notification_options
  n_onclick :: "handler option"

datatype platform_call =
    PromptCall
  | ConstructCall jsval notification_options

record world =
  permission :: jsval
  shown :: "notification list"
  calls :: "platform_call list"

datatype settlement = Fulfils jsval | Rejects jsval | NeverSettles

datatype awaitable = NotAPromise jsval | APromise settlement

datatype call_result = ThrowsSync jsval | Returns awaitable

record platform =
  has_Notification :: bool
  request_permission :: "jsval \<Rightarrow> call_result \<times> jsval"
  construct_throws :: "jsval \<Rightarrow> notification_options \<Rightarrow> jsval option"
  onclick_throws :: "jsval option"
  focus_throws :: "jsval option"
  window_top :: "jsval + jsval"
  window_self :: "jsval + jsval"

section \<open>Computations that may throw or suspend\<close>

datatype 'a outcome = Returned 'a | Thrown jsval | Suspended

type_synonym 'a js = "world \<Rightarrow> 'a outcome \<times> world"

definition js_return :: "'a \<Rightarrow> 'a js" where
  "js_return v = (\<lambda>w. (Returned v, w))"

definition js_bind :: "'a js \<Rightarrow> ('a \<Rightarrow> 'b js) \<Rightarrow> 'b js" where
  "js_bind m f = (\<lambda>w. case m w of
       (Returned v, w') \<Rightarrow> f v w'
     | (Thrown e, w') \<Rightarrow> (Thrown e, w')
     | (Suspended, w') \<Rightarrow> (Suspended, w'))"

definition try_catch :: "'a js \<Rightarrow> (jsval \<Rightarrow> 'a js) \<Rightarrow> 'a js" where
  \<comment> \<open>\<^verbatim>\<open>try { m } catch (e) { h }\<close>\<close>
  "try_catch m h = (\<lambda>w. case m w of
       (Thrown e, w') \<Rightarrow> h e w'
     | r \<Rightarrow> r)"

definition await :: "awaitable \<Rightarrow> jsval js" where
  \<comment> \<open>\<^verbatim>\<open>await x\<close>: a value that is no promise is its own result; a promise that never
      settles suspends the caller for ever.\<close>
  "await x = (\<lambda>w. case x of
       NotAPromise v \<Rightarrow> (Returned v, w)
     | APromise (Fulfils v) \<Rightarrow> (Returned v, w)
     | APromise (Rejects e) \<Rightarrow> (Thrown e, w)
     | APromise NeverSettles \<Rightarrow> (Suspended, w))"

datatype promise_state = Fulfilled jsval | Rejected jsval | Pending

definition async :: "jsval js \<Rightarrow> world \<Rightarrow> promise_state \<times> world" where
  \<comment> \<open>the promise an \<^verbatim>\<open>async function\<close> hands to its caller\<close>
  "async m = (\<lambda>w. case m w of
       (Returned v, w') \<Rightarrow> (Fulfilled v, w')
     | (Thrown e, w') \<Rightarrow> (Rejected e, w')
     | (Suspended, w') \<Rightarrow> (Pending, w'))"

subsection \<open>Platform entry points\<close>

definition Notification_permission :: "jsval js" where
  "Notification_permission = (\<lambda>w. (Returned (permission w), w))"

definition Notification_requestPermission :: "platform \<Rightarrow> awaitable js" where
  "Notification_requestPermission pf = (\<lambda>w.
     let (r, p') = request_permission pf (permission w);
         w' = w\<lparr>permission := p', calls := calls w @ [PromptCall]\<rparr>
     in case r of
          ThrowsSync e \<Rightarrow> (Thrown e, w')
        | Returns x \<Rightarrow> (Returned x, w'))"

definition new_Notification :: "platform \<Rightarrow> jsval \<Rightarrow> notification_options \<Rightarrow> nat js" where
  \<comment> \<open>the result is the reference of the new notification: its position in \<open>shown\<close>\<close>
  "new_Notification pf t opts = (\<lambda>w.
     let w' = w\<lparr>calls := calls w @ [ConstructCall t opts]\<rparr>
     in case construct_throws pf t opts of
          Some e \<Rightarrow> (Thrown e, w')
        | None \<Rightarrow>
            (Returned (length (shown w)),
             w'\<lparr>shown := shown w @ [\<lparr>n_title = t, n_options = opts, n_onclick = None\<rparr>]\<rparr>))"

definition set_onclick :: "platform \<Rightarrow> nat \<Rightarrow> handler \<Rightarrow> unit js" where
  "set_onclick pf n h = (\<lambda>w.
     case onclick_throws pf of
       Some e \<Rightarrow> (Thrown e, w)
     | None \<Rightarrow>
         (Returned (),
          if n < length (shown w)
          then w\<lparr>shown := (shown w)[n := (shown w ! n)\<lparr>n_onclick := Some h\<rparr>]\<rparr>
          else w))"

definition window_focus :: "platform \<Rightarrow> unit js" where
  "window_focus pf = (\<lambda>w.
     case focus_throws pf of Some e \<Rightarrow> (Thrown e, w) | None \<Rightarrow> (Returned (), w))"

definition get_window_top :: "platform \<Rightarrow> jsval js" where
  "get_window_top pf = (\<lambda>w.
     case window_top pf of Inl e \<Rightarrow> (Thrown e, w) | Inr v \<Rightarrow> (Returned v, w))"

definition get_window_self :: "platform \<Rightarrow> jsval js" where
  "get_window_self pf = (\<lambda>w.
     case window_self pf of Inl e \<Rightarrow> (Thrown e, w) | Inr v \<Rightarrow> (Returned v, w))"

section \<open>The four functions of the module\<close>

definition permissionStatus :: "platform \<Rightarrow> jsval js" where
  "permissionStatus pf =
     (if \<not> has_Notification pf then js_return (JString ''unsupported'')
      else Notification_permission)"

definition requestPermission :: "platform \<Rightarrow> world \<Rightarrow> promise_state \<times> world" where
  "requestPermission pf = async
     (if \<not> has_Notification pf then js_return (JString ''unsupported'')
      else try_catch
             (js_bind (js_bind (Notification_requestPermission pf) await)
                (\<lambda>r. js_return r))
             (\<lambda>e. permissionStatus pf))"


definition notify :: "platform \<Rightarrow> jsval \<Rightarrow> jsval \<Rightarrow> jsval js" where
  "notify pf title body =
     (if \<not> has_Notification pf then js_return (JString ''unsupported'')
      else js_bind Notification_permission (\<lambda>p.
        if \<not> strict_eq p (JString ''granted'') then js_return (JString ''blocked'')
        else try_catch
               (js_bind
                  (new_Notification pf (js_or title (JString ''Health Whisperer''))
                     \<lparr>n_body = js_or body (JString ''''),
                      n_tag = JString ''health-whisperer''\<rparr>)
                  (\<lambda>n. js_bind
                     (try_catch (set_onclick pf n FocusWindow) (\<lambda>e. js_return ()))
                     (\<lambda>_. js_return (JString ''shown''))))
               (\<lambda>e. js_return (JString ''blocked''))))"

definition isInIframe :: "platform \<Rightarrow> jsval js" where
  "isInIframe pf =
     try_catch
       (js_bind (get_window_top pf) (\<lambda>t.
        js_bind (get_window_self pf) (\<lambda>s.
        js_return (JBool (\<not> strict_eq t s)))))
       (\<lambda>e. js_return (JBool True))"

section \<open>The result vocabularies of the specification\<close>

text \<open>
  The source has no declaration of its result types. The sets below follow the
  specification's data model: PermissionState is one of "granted", "denied", "default",
  "unsupported"; NotificationResult is one of "shown", "blocked", "unsupported". The
  first three permission states are the values of the platform's own enumeration, which
  the source's comment on \<^verbatim>\<open>Notification.permission\<close> lists.
\<close>

definition standard_permissions :: "jsval set" where
  "standard_permissions = {JString ''granted'', JString ''denied'', JString ''default''}"

definition permission_states :: "jsval set" where
  "permission_states = insert (JString ''unsupported'') standard_permissions"

definition notification_results :: "jsval set" where
  "notification_results = {JString ''shown'', JString ''blocked'', JString ''unsupported''}"

definition sentinel_strings :: "jsval set" where
  "sentinel_strings = permission_states \<union> notification_results"

fun resolved_value :: "call_result \<Rightarrow> jsval option" where
  \<comment> \<open>the value an \<^verbatim>\<open>await\<close> of the prompt's result yields, when it yields one\<close>
  "resolved_value (Returns (NotAPromise v)) = Some v"
| "resolved_value (Returns (APromise (Fulfils v))) = Some v"
| "resolved_value _ = None"

fun prompt_fails :: "call_result \<Rightarrow> bool" where
  \<comment> \<open>\<^verbatim>\<open>Notification.requestPermission()\<close> throws, or returns a promise that rejects\<close>
  "prompt_fails (ThrowsSync e) = True"
| "prompt_fails (Returns (APromise (Rejects e))) = True"
| "prompt_fails _ = False"

section \<open>Concrete platforms and states\<close>

definition granted_world :: world where
  "granted_world = \<lparr>permission = JString ''granted'', shown = [], calls = []\<rparr>"

definition undecided_world :: world where
  "undecided_world = \<lparr>permission = JString ''default'', shown = [], calls = []\<rparr>"

definition denied_world :: world where
  "denied_world = \<lparr>permission = JString ''denied'', shown = [], calls = []\<rparr>"

definition grant_prompt :: "jsval \<Rightarrow> call_result \<times> jsval" where
  \<comment> \<open>the user accepts: the promise fulfils with "granted"\<close>
  "grant_prompt p = (Returns (APromise (Fulfils (JString ''granted''))), JString ''granted'')"

definition never_throws :: "jsval \<Rightarrow> notification_options \<Rightarrow> jsval option" where
  "never_throws t opts = None"

definition illegal_constructor :: "jsval \<Rightarrow> notification_options \<Rightarrow> jsval option" where
  \<comment> \<open>a platform that only allows notifications from a service worker\<close>
  "illegal_constructor t opts = Some (JObject 7)"

definition desktop_browser :: platform where
  "desktop_browser =
     \<lparr>has_Notification = True, request_permission = grant_prompt,
      construct_throws = never_throws, onclick_throws = None, focus_throws = None,
      window_top = Inr (JObject 0), window_self = Inr (JObject 0)\<rparr>"

definition mobile_browser :: platform where
  "mobile_browser = desktop_browser\<lparr>construct_throws := illegal_constructor\<rparr>"

definition callback_prompt :: "jsval \<Rightarrow> call_result \<times> jsval" where
  \<comment> \<open>the callback form of the prompt: the call itself returns \<^verbatim>\<open>undefined\<close>\<close>
  "callback_prompt p = (Returns (NotAPromise JUndefined), p)"

definition legacy_browser :: platform where
  "legacy_browser = desktop_browser\<lparr>request_permission := callback_prompt\<rparr>"

definition rejecting_prompt :: "jsval \<Rightarrow> call_result \<times> jsval" where
  \<comment> \<open>the user refuses and the promise rejects\<close>
  "rejecting_prompt p = (Returns (APromise (Rejects (JObject 9))), JString ''denied'')"

definition rejecting_browser :: platform where
  "rejecting_browser = desktop_browser\<lparr>request_permission := rejecting_prompt\<rparr>"

definition headless_env :: platform where
  "headless_env = desktop_browser\<lparr>has_Notification := False\<rparr>"

definition cross_origin_frame :: platform where
  "cross_origin_frame =
     desktop_browser\<lparr>window_top := Inl (JObject 8), window_self := Inr (JObject 1)\<rparr>"

definition same_origin_frame :: platform where
  "same_origin_frame =
     desktop_browser\<lparr>window_top := Inr (JObject 0), window_self := Inr (JObject 1)\<rparr>"

definition unreported_world :: world where
  \<comment> \<open>a browser whose \<^verbatim>\<open>Notification\<close> has no static \<^verbatim>\<open>permission\<close> attribute: the
      read yields \<^verbatim>\<open>undefined\<close>\<close>
  "unreported_world = \<lparr>permission = JUndefined, shown = [], calls = []\<rparr>"

definition readonly_onclick_browser :: platform where
  \<comment> \<open>assigning \<^verbatim>\<open>onclick\<close> throws, and so does \<^verbatim>\<open>window.focus()\<close>\<close>
  "readonly_onclick_browser =
     desktop_browser\<lparr>onclick_throws := Some (JObject 5), focus_throws := Some (JObject 6)\<rparr>"

lemmas example_defs = granted_world_def undecided_world_def denied_world_def
  grant_prompt_def never_throws_def illegal_constructor_def desktop_browser_def
  mobile_browser_def callback_prompt_def legacy_browser_def rejecting_prompt_def
  rejecting_browser_def headless_env_def cross_origin_frame_def same_origin_frame_def
  unreported_world_def readonly_onclick_browser_def

lemmas vocabulary_defs = standard_permissions_def permission_states_def
  notification_results_def sentinel_strings_def

section \<open>How each function evaluates\<close>

lemmas js_defs = js_return_def js_bind_def try_catch_def await_def async_def
  Notification_permission_def Notification_requestPermission_def new_Notification_def
  set_onclick_def window_focus_def get_window_top_def get_window_self_def

lemma strict_eq_string: "strict_eq v (JString s) \<longleftrightarrow> v = JString s"
  by (cases v) auto

lemma js_or_string: "js_or (JString s) (JString []) = JString s"
  by (simp add: js_or_def)

lemma js_or_truthy: "truthy a \<Longrightarrow> js_or a b = a"
  by (simp add: js_or_def)

lemma js_or_falsy: "\<not> truthy a \<Longrightarrow> js_or a b = b"
  by (simp add: js_or_def)

lemma permissionStatus_eval:
  "permissionStatus pf w =
     (Returned (if has_Notification pf then permission w else JString ''unsupported''), w)"
  by (simp add: permissionStatus_def js_defs)

lemma notify_unsupported:
  "\<not> has_Notification pf \<Longrightarrow>
   notify pf title body w = (Returned (JString ''unsupported''), w)"
  by (simp add: notify_def js_defs)

lemma notify_not_granted:
  "has_Notification pf \<Longrightarrow> permission w \<noteq> JString ''granted'' \<Longrightarrow>
   notify pf title body w = (Returned (JString ''blocked''), w)"
  by (simp add: notify_def js_defs strict_eq_string)

lemma notify_ctor_throws:
  "has_Notification pf \<Longrightarrow> permission w = JString ''granted'' \<Longrightarrow>
   construct_throws pf (js_or title (JString ''Health Whisperer''))
     \<lparr>n_body = js_or body (JString ''''), n_tag = JString ''health-whisperer''\<rparr> = Some e \<Longrightarrow>
   notify pf title body w =
     (Returned (JString ''blocked''),
      w\<lparr>calls := calls w @
         [ConstructCall (js_or title (JString ''Health Whisperer''))
            \<lparr>n_body = js_or body (JString ''''), n_tag = JString ''health-whisperer''\<rparr>]\<rparr>)"
  by (simp add: notify_def js_defs)

lemma notify_ctor_ok:
  "has_Notification pf \<Longrightarrow> permission w = JString ''granted'' \<Longrightarrow>
   construct_throws pf (js_or title (JString ''Health Whisperer''))
     \<lparr>n_body = js_or body (JString ''''), n_tag = JString ''health-whisperer''\<rparr> = None \<Longrightarrow>
   notify pf title body w =
     (Returned (JString ''shown''),
      w\<lparr>calls := calls w @
         [ConstructCall (js_or title (JString ''Health Whisperer''))
            \<lparr>n_body = js_or body (JString ''''), n_tag = JString ''health-whisperer''\<rparr>],
        shown := shown w @
         [\<lparr>n_title = js_or title (JString ''Health Whisperer''),
           n_options =
             \<lparr>n_body = js_or body (JString ''''), n_tag = JString ''health-whisperer''\<rparr>,
           n_onclick =
             (case onclick_throws pf of None \<Rightarrow> Some FocusWindow | Some x \<Rightarrow> None)\<rparr>]\<rparr>)"
  by (simp add: notify_def js_defs split: option.splits)

lemma notify_calls_granted:
  assumes "has_Notification pf" and "permission w = JString ''granted''"
  shows "calls (snd (notify pf title body w)) = calls w @
         [ConstructCall (js_or title (JString ''Health Whisperer''))
            \<lparr>n_body = js_or body (JString ''''), n_tag = JString ''health-whisperer''\<rparr>]"
proof (cases "construct_throws pf (js_or title (JString ''Health Whisperer''))
     \<lparr>n_body = js_or body (JString ''''), n_tag = JString ''health-whisperer''\<rparr>")
  case None
  with assms show ?thesis by (simp add: notify_ctor_ok)
next
  case (Some e)
  with assms show ?thesis by (simp add: notify_ctor_throws)
qed

lemma notify_returns:
  "fst (notify pf title body w) \<in>
     {Returned (JString ''shown''), Returned (JString ''blocked''),
      Returned (JString ''unsupported'')}"
proof (cases "has_Notification pf")
  case False
  then show ?thesis by (simp add: notify_unsupported)
next
  case cap: True
  show ?thesis
  proof (cases "permission w = JString ''granted''")
    case False
    with cap show ?thesis by (simp add: notify_not_granted)
  next
    case granted: True
    show ?thesis
    proof (cases "construct_throws pf (js_or title (JString ''Health Whisperer''))
       \<lparr>n_body = js_or body (JString ''''), n_tag = JString ''health-whisperer''\<rparr>")
      case None
      with cap granted show ?thesis by (simp add: notify_ctor_ok)
    next
      case (Some e)
      with cap granted show ?thesis by (simp add: notify_ctor_throws)
    qed
  qed
qed

lemma requestPermission_unsupported:
  "\<not> has_Notification pf \<Longrightarrow>
   requestPermission pf w = (Fulfilled (JString ''unsupported''), w)"
  by (simp add: requestPermission_def js_defs)

lemma requestPermission_eval:
  assumes "has_Notification pf"
    and "request_permission pf (permission w) = (r, p')"
  shows "requestPermission pf w =
     (if prompt_fails r then Fulfilled p'
      else case resolved_value r of Some v \<Rightarrow> Fulfilled v | None \<Rightarrow> Pending,
      w\<lparr>permission := p', calls := calls w @ [PromptCall]\<rparr>)"
proof (cases r)
  case (ThrowsSync e)
  with assms show ?thesis
    by (simp add: requestPermission_def permissionStatus_def js_defs)
next
  case (Returns x)
  show ?thesis
  proof (cases x)
    case (NotAPromise v)
    with Returns assms show ?thesis
      by (simp add: requestPermission_def permissionStatus_def js_defs)
  next
    case (APromise s)
    with Returns assms show ?thesis
      by (cases s) (simp_all add: requestPermission_def permissionStatus_def js_defs)
  qed
qed

lemma isInIframe_eval:
  "isInIframe pf w =
     (Returned (JBool (case window_top pf of
                         Inl e \<Rightarrow> True
                       | Inr t \<Rightarrow> (case window_self pf of
                                     Inl e \<Rightarrow> True
                                   | Inr s \<Rightarrow> \<not> strict_eq t s))), w)"
  by (simp add: isInIframe_def js_defs split: sum.splits)


section \<open>notify\<close>

text \<open>
  C1 (as amended). In an environment with the Notification capability whose current
  permission is "granted" and whose constructor does not throw, \<open>notify(T, B)\<close> for a
  non-empty title string \<open>T\<close> and any body string \<open>B\<close> returns "shown", calls the
  constructor exactly once, and adds exactly one notification to the display, with
  title \<open>T\<close>, body \<open>B\<close> and tag "health-whisperer". (For the empty title the source's
  \<^verbatim>\<open>title || 'Health Whisperer'\<close> substitutes the default title.)
\<close>

theorem notify_granted_shows_one:
  assumes "has_Notification pf"
    and "permission w = JString ''granted''"
    and "construct_throws pf (JString T)
           \<lparr>n_body = JString B, n_tag = JString ''health-whisperer''\<rparr> = None"
    and "T \<noteq> []"
  shows "fst (notify pf (JString T) (JString B) w) = Returned (JString ''shown'') \<and>
         shown (snd (notify pf (JString T) (JString B) w)) = shown w @
           [\<lparr>n_title = JString T,
             n_options = \<lparr>n_body = JString B, n_tag = JString ''health-whisperer''\<rparr>,
             n_onclick =
               (case onclick_throws pf of None \<Rightarrow> Some FocusWindow | Some x \<Rightarrow> None)\<rparr>] \<and>
         calls (snd (notify pf (JString T) (JString B) w)) = calls w @
           [ConstructCall (JString T)
              \<lparr>n_body = JString B, n_tag = JString ''health-whisperer''\<rparr>]"
proof -
  from \<open>T \<noteq> []\<close> have t: "js_or (JString T) (JString ''Health Whisperer'') = JString T"
    by (simp add: js_or_truthy)
  have b: "js_or (JString B) (JString '''') = JString B"
    by (rule js_or_string)
  from assms(1-3) show ?thesis
    using notify_ctor_ok [of pf w "JString T" "JString B"] by (simp add: t b)
qed

theorem notify_granted_shows_one_witness:
  "has_Notification desktop_browser \<and>
   permission granted_world = JString ''granted'' \<and>
   construct_throws desktop_browser (JString ''T'')
     \<lparr>n_body = JString ''B'', n_tag = JString ''health-whisperer''\<rparr> = None \<and>
   ''T'' \<noteq> [] \<and>
   fst (notify desktop_browser (JString ''T'') (JString ''B'') granted_world)
     = Returned (JString ''shown'') \<and>
   shown (snd (notify desktop_browser (JString ''T'') (JString ''B'') granted_world)) =
     [\<lparr>n_title = JString ''T'',
       n_options = \<lparr>n_body = JString ''B'', n_tag = JString ''health-whisperer''\<rparr>,
       n_onclick = Some FocusWindow\<rparr>]"
  using notify_granted_shows_one [of desktop_browser granted_world "''T''" "''B''"]
  by (simp add: example_defs)

text \<open>
  The claim as first stated, for every title string, fails at the empty title: the
  notification on display then carries the default title, not the empty one.
\<close>

theorem notify_empty_title_counterexample:
  "has_Notification desktop_browser \<and>
   permission granted_world = JString ''granted'' \<and>
   construct_throws desktop_browser (JString ''Health Whisperer'')
     \<lparr>n_body = JString ''B'', n_tag = JString ''health-whisperer''\<rparr> = None \<and>
   construct_throws desktop_browser (JString '''')
     \<lparr>n_body = JString ''B'', n_tag = JString ''health-whisperer''\<rparr> = None \<and>
   map n_title (shown (snd (notify desktop_browser (JString '''') (JString ''B'') granted_world)))
     = [JString ''Health Whisperer''] \<and>
   JString ''Health Whisperer'' \<noteq> JString ''''"
  by (simp add: example_defs notify_def js_defs js_or_def)

text \<open>
  C2. In an environment with the Notification capability, if the current permission is
  "denied" or "default", or if the constructor throws on the arguments \<open>notify\<close> passes
  to it, then \<open>notify(title, body)\<close> returns "blocked", the notifications on display
  are the ones that were there before, and the permission is unchanged.
\<close>

theorem notify_blocked_no_display:
  assumes "has_Notification pf"
    and "permission w = JString ''denied'' \<or> permission w = JString ''default'' \<or>
         construct_throws pf (js_or title (JString ''Health Whisperer''))
           \<lparr>n_body = js_or body (JString ''''), n_tag = JString ''health-whisperer''\<rparr>
           \<noteq> None"
  shows "fst (notify pf title body w) = Returned (JString ''blocked'') \<and>
         shown (snd (notify pf title body w)) = shown w \<and>
         permission (snd (notify pf title body w)) = permission w"
proof (cases "permission w = JString ''granted''")
  case False
  with assms(1) show ?thesis by (simp add: notify_not_granted)
next
  case True
  with assms(2) obtain e where
    "construct_throws pf (js_or title (JString ''Health Whisperer''))
       \<lparr>n_body = js_or body (JString ''''), n_tag = JString ''health-whisperer''\<rparr> = Some e"
    by auto
  with assms(1) True show ?thesis by (simp add: notify_ctor_throws)
qed

theorem notify_blocked_no_display_witness:
  "has_Notification desktop_browser \<and>
   permission denied_world = JString ''denied'' \<and>
   notify desktop_browser (JString ''T'') (JString ''B'') denied_world
     = (Returned (JString ''blocked''), denied_world) \<and>
   has_Notification mobile_browser \<and>
   construct_throws mobile_browser (js_or (JString ''T'') (JString ''Health Whisperer''))
     \<lparr>n_body = js_or (JString ''B'') (JString ''''), n_tag = JString ''health-whisperer''\<rparr>
     \<noteq> None \<and>
   fst (notify mobile_browser (JString ''T'') (JString ''B'') granted_world)
     = Returned (JString ''blocked'') \<and>
   shown (snd (notify mobile_browser (JString ''T'') (JString ''B'') granted_world)) = []"
  using notify_blocked_no_display
      [of desktop_browser denied_world "JString ''T''" "JString ''B''"]
    notify_blocked_no_display
      [of mobile_browser granted_world "JString ''T''" "JString ''B''"]
  by (simp add: example_defs notify_not_granted)

text \<open>
  C8. In an environment with the Notification capability and permission "granted",
  \<open>notify()\<close> called with no arguments (both parameters \<^verbatim>\<open>undefined\<close>) calls the
  constructor exactly once, with title "Health Whisperer" and the empty string as body;
  when the constructor does not throw, the notification put on display has that title
  and that body.
\<close>

theorem notify_no_arguments:
  assumes "has_Notification pf" and "permission w = JString ''granted''"
  shows "calls (snd (notify pf JUndefined JUndefined w)) = calls w @
           [ConstructCall (JString ''Health Whisperer'')
              \<lparr>n_body = JString '''', n_tag = JString ''health-whisperer''\<rparr>] \<and>
         (construct_throws pf (JString ''Health Whisperer'')
              \<lparr>n_body = JString '''', n_tag = JString ''health-whisperer''\<rparr> = None \<longrightarrow>
          fst (notify pf JUndefined JUndefined w) = Returned (JString ''shown'') \<and>
          map n_title (shown (snd (notify pf JUndefined JUndefined w)))
            = map n_title (shown w) @ [JString ''Health Whisperer''] \<and>
          map n_options (shown (snd (notify pf JUndefined JUndefined w)))
            = map n_options (shown w) @
              [\<lparr>n_body = JString '''', n_tag = JString ''health-whisperer''\<rparr>])"
proof -
  have t: "js_or JUndefined (JString ''Health Whisperer'') = JString ''Health Whisperer''"
    and b: "js_or JUndefined (JString '''') = JString ''''"
    by (simp_all add: js_or_def)
  from assms show ?thesis
    using notify_calls_granted [of pf w JUndefined JUndefined]
      notify_ctor_ok [of pf w JUndefined JUndefined]
    by (simp add: t b)
qed

theorem notify_no_arguments_witness:
  "has_Notification desktop_browser \<and>
   permission granted_world = JString ''granted'' \<and>
   calls (snd (notify desktop_browser JUndefined JUndefined granted_world)) =
     [ConstructCall (JString ''Health Whisperer'')
        \<lparr>n_body = JString '''', n_tag = JString ''health-whisperer''\<rparr>] \<and>
   map n_title (shown (snd (notify desktop_browser JUndefined JUndefined granted_world)))
     = [JString ''Health Whisperer'']"
  using notify_no_arguments [of desktop_browser granted_world]
  by (simp add: example_defs)

text \<open>
  C10. In an environment with the Notification capability and permission "granted", a
  falsy title (the empty string among them) makes \<open>notify\<close> call the constructor with
  the default title "Health Whisperer" instead, and a falsy body makes it call the
  constructor with the empty string as body; when the constructor does not throw, the
  notification put on display carries the substituted values.
\<close>

theorem notify_falsy_arguments:
  assumes "has_Notification pf" and "permission w = JString ''granted''"
  shows "\<not> truthy (JString '''') \<and>
         (\<not> truthy title \<longrightarrow>
            calls (snd (notify pf title body w)) = calls w @
              [ConstructCall (JString ''Health Whisperer'')
                 \<lparr>n_body = js_or body (JString ''''),
                  n_tag = JString ''health-whisperer''\<rparr>] \<and>
            (fst (notify pf title body w) = Returned (JString ''shown'') \<longrightarrow>
               map n_title (shown (snd (notify pf title body w)))
                 = map n_title (shown w) @ [JString ''Health Whisperer''])) \<and>
         (\<not> truthy body \<longrightarrow>
            calls (snd (notify pf title body w)) = calls w @
              [ConstructCall (js_or title (JString ''Health Whisperer''))
                 \<lparr>n_body = JString '''', n_tag = JString ''health-whisperer''\<rparr>] \<and>
            (fst (notify pf title body w) = Returned (JString ''shown'') \<longrightarrow>
               map n_options (shown (snd (notify pf title body w)))
                 = map n_options (shown w) @
                   [\<lparr>n_body = JString '''', n_tag = JString ''health-whisperer''\<rparr>]))"
proof (cases "construct_throws pf (js_or title (JString ''Health Whisperer''))
     \<lparr>n_body = js_or body (JString ''''), n_tag = JString ''health-whisperer''\<rparr>")
  case None
  with assms show ?thesis
    using notify_ctor_ok [of pf w title body] by (simp add: js_or_falsy)
next
  case (Some e)
  with assms show ?thesis
    using notify_ctor_throws [of pf w title body e] by (simp add: js_or_falsy)
qed

theorem notify_falsy_arguments_witness:
  "has_Notification desktop_browser \<and>
   permission granted_world = JString ''granted'' \<and>
   \<not> truthy (JString '''') \<and> \<not> truthy JNull \<and>
   calls (snd (notify desktop_browser (JString '''') JNull granted_world)) =
     [ConstructCall (JString ''Health Whisperer'')
        \<lparr>n_body = JString '''', n_tag = JString ''health-whisperer''\<rparr>] \<and>
   map n_title (shown (snd (notify desktop_browser (JString '''') JNull granted_world)))
     = [JString ''Health Whisperer'']"
  using notify_falsy_arguments [of desktop_browser granted_world "JString ''''" JNull]
  by (simp add: example_defs js_or_def notify_ctor_ok)

section \<open>permissionStatus and requestPermission\<close>

text \<open>
  C5. In an environment with the Notification capability, \<open>permissionStatus()\<close> returns
  the permission value the platform currently reports, unchanged, whatever that value
  is; it returns (it does not throw) and leaves the state as it was.
\<close>

theorem permissionStatus_passes_through:
  assumes "has_Notification pf"
  shows "permissionStatus pf w = (Returned (permission w), w)"
  using assms by (simp add: permissionStatus_eval)

theorem permissionStatus_passes_through_witness:
  "has_Notification desktop_browser \<and>
   permissionStatus desktop_browser undecided_world
     = (Returned (JString ''default''), undecided_world)"
  using permissionStatus_passes_through [of desktop_browser undecided_world]
  by (simp add: example_defs)

text \<open>
  C4. In an environment without the Notification capability, \<open>permissionStatus()\<close>
  returns "unsupported", \<open>notify(title, body)\<close> returns "unsupported" for all
  arguments, and the promise of \<open>requestPermission()\<close> is fulfilled with "unsupported";
  none of the three changes the state, so the platform prompt is not invoked: the log of
  platform calls is the one from before the call.
\<close>

theorem unsupported_without_capability:
  assumes "\<not> has_Notification pf"
  shows "permissionStatus pf w = (Returned (JString ''unsupported''), w) \<and>
         notify pf title body w = (Returned (JString ''unsupported''), w) \<and>
         requestPermission pf w = (Fulfilled (JString ''unsupported''), w) \<and>
         calls (snd (requestPermission pf w)) = calls w"
  using assms
  by (simp add: permissionStatus_eval notify_unsupported requestPermission_unsupported)

theorem unsupported_without_capability_witness:
  "\<not> has_Notification headless_env \<and>
   permissionStatus headless_env granted_world
     = (Returned (JString ''unsupported''), granted_world) \<and>
   notify headless_env (JString ''T'') (JString ''B'') granted_world
     = (Returned (JString ''unsupported''), granted_world) \<and>
   requestPermission headless_env granted_world
     = (Fulfilled (JString ''unsupported''), granted_world) \<and>
   calls (snd (requestPermission headless_env granted_world)) = []"
  using unsupported_without_capability
      [of headless_env granted_world "JString ''T''" "JString ''B''"]
  by (simp add: example_defs)

text \<open>
  C3. The promise of \<open>requestPermission()\<close> is never rejected, whatever the platform
  prompt does. If \<^verbatim>\<open>Notification.requestPermission()\<close> throws, or returns a promise
  that rejects, the promise of \<open>requestPermission()\<close> is fulfilled, and with the value
  \<open>permissionStatus()\<close> returns in the state the failed prompt has left.
\<close>

theorem requestPermission_never_raises:
  "(\<forall>e. fst (requestPermission pf w) \<noteq> Rejected e) \<and>
   (prompt_fails (fst (request_permission pf (permission w))) \<longrightarrow>
      (\<exists>v. fst (requestPermission pf w) = Fulfilled v \<and>
           permissionStatus pf (snd (requestPermission pf w))
             = (Returned v, snd (requestPermission pf w))))"
proof (cases "has_Notification pf")
  case False
  then show ?thesis
    by (simp add: requestPermission_unsupported permissionStatus_eval)
next
  case True
  obtain r p' where rp: "request_permission pf (permission w) = (r, p')"
    by (cases "request_permission pf (permission w)")
  from True rp show ?thesis
    by (simp add: requestPermission_eval permissionStatus_eval split: option.splits)
qed

theorem requestPermission_never_raises_witness:
  "prompt_fails (fst (request_permission rejecting_browser (permission undecided_world))) \<and>
   fst (requestPermission rejecting_browser undecided_world) = Fulfilled (JString ''denied'') \<and>
   fst (permissionStatus rejecting_browser
          (snd (requestPermission rejecting_browser undecided_world)))
     = Returned (JString ''denied'') \<and>
   fst (requestPermission rejecting_browser undecided_world) \<noteq> Rejected (JObject 9)"
  using requestPermission_never_raises [of rejecting_browser undecided_world]
  by (simp add: example_defs permissionStatus_eval requestPermission_eval)

text \<open>
  C9 (as amended). \<open>notify\<close> returns one of "shown", "blocked", "unsupported" in every
  environment and for all arguments. \<open>permissionStatus()\<close> and \<open>requestPermission()\<close>
  hand the platform's value on unchecked. So \<open>permissionStatus()\<close> returns one of
  "granted", "denied", "default", "unsupported" exactly when the capability is absent
  or the permission the platform reports is one of these. And every value
  \<open>requestPermission()\<close> resolves to is one of them exactly when the capability is
  absent or both hold: the value the platform prompt resolves to, if it resolves, is one
  of them, and the permission reported after a prompt that throws or rejects, if it
  does, is one of them.
\<close>

theorem results_in_vocabulary:
  "(\<exists>v \<in> notification_results. fst (notify pf title body w) = Returned v) \<and>
   ((\<exists>v \<in> permission_states. fst (permissionStatus pf w) = Returned v) \<longleftrightarrow>
      (has_Notification pf \<longrightarrow> permission w \<in> permission_states)) \<and>
   ((\<forall>v. fst (requestPermission pf w) = Fulfilled v \<longrightarrow> v \<in> permission_states) \<longleftrightarrow>
      (has_Notification pf \<longrightarrow>
         (prompt_fails (fst (request_permission pf (permission w))) \<longrightarrow>
            snd (request_permission pf (permission w)) \<in> permission_states) \<and>
         (\<forall>v. resolved_value (fst (request_permission pf (permission w))) = Some v \<longrightarrow>
            v \<in> permission_states)))"
proof (intro conjI)
  show "\<exists>v \<in> notification_results. fst (notify pf title body w) = Returned v"
    using notify_returns [of pf title body w]
    by (auto simp add: notification_results_def)
next
  show "(\<exists>v \<in> permission_states. fst (permissionStatus pf w) = Returned v) \<longleftrightarrow>
      (has_Notification pf \<longrightarrow> permission w \<in> permission_states)"
    by (simp add: permissionStatus_eval permission_states_def)
next
  obtain r p' where rp: "request_permission pf (permission w) = (r, p')"
    by (cases "request_permission pf (permission w)")
  show "(\<forall>v. fst (requestPermission pf w) = Fulfilled v \<longrightarrow> v \<in> permission_states) \<longleftrightarrow>
      (has_Notification pf \<longrightarrow>
         (prompt_fails (fst (request_permission pf (permission w))) \<longrightarrow>
            snd (request_permission pf (permission w)) \<in> permission_states) \<and>
         (\<forall>v. resolved_value (fst (request_permission pf (permission w))) = Some v \<longrightarrow>
            v \<in> permission_states))"
  proof (cases "has_Notification pf")
    case False
    then show ?thesis
      by (simp add: requestPermission_unsupported permission_states_def)
  next
    case True
    show ?thesis
    proof (cases "prompt_fails r")
      case fails: True
      then have "resolved_value r = None"
        by (induction r rule: prompt_fails.induct) simp_all
      with True rp fails show ?thesis
        by (simp add: requestPermission_eval)
    next
      case False
      with True rp show ?thesis
        by (cases "resolved_value r") (simp_all add: requestPermission_eval)
    qed
  qed
qed

theorem results_in_vocabulary_witness:
  "has_Notification desktop_browser \<and>
   permission undecided_world \<in> permission_states \<and>
   resolved_value (fst (request_permission desktop_browser (permission undecided_world)))
     = Some (JString ''granted'') \<and>
   JString ''granted'' \<in> permission_states \<and>
   \<not> prompt_fails (fst (request_permission desktop_browser (permission undecided_world))) \<and>
   fst (permissionStatus desktop_browser undecided_world) = Returned (JString ''default'') \<and>
   JString ''default'' \<in> permission_states \<and>
   fst (requestPermission desktop_browser undecided_world)
     = Fulfilled (JString ''granted'') \<and>
   fst (notify desktop_browser JUndefined JUndefined undecided_world)
     = Returned (JString ''blocked'') \<and>
   JString ''blocked'' \<in> notification_results"
  using results_in_vocabulary [of desktop_browser JUndefined JUndefined undecided_world]
  by (simp add: example_defs vocabulary_defs permissionStatus_eval requestPermission_eval
        notify_not_granted)

text \<open>
  The claim as first stated, for every environment, fails in both places where a
  platform value is handed on. On a platform whose \<^verbatim>\<open>Notification.requestPermission()\<close>
  takes a callback and returns \<^verbatim>\<open>undefined\<close>, \<^verbatim>\<open>await\<close> yields \<^verbatim>\<open>undefined\<close> and
  \<open>requestPermission()\<close> resolves to it. On a platform whose \<^verbatim>\<open>Notification\<close> has no
  static \<^verbatim>\<open>permission\<close> attribute, \<open>permissionStatus()\<close> returns \<^verbatim>\<open>undefined\<close>.
\<close>

theorem requestPermission_undefined_counterexample:
  "has_Notification legacy_browser \<and>
   fst (requestPermission legacy_browser undecided_world) = Fulfilled JUndefined \<and>
   has_Notification desktop_browser \<and>
   fst (permissionStatus desktop_browser unreported_world) = Returned JUndefined \<and>
   JUndefined \<notin> permission_states"
  by (simp add: example_defs vocabulary_defs requestPermission_def permissionStatus_def
        js_defs)

section \<open>isInIframe\<close>

text \<open>
  C6. \<open>isInIframe()\<close> always returns a boolean and never throws. It returns true if and
  only if reading \<^verbatim>\<open>window.top\<close> or \<^verbatim>\<open>window.self\<close> throws or the two references
  differ under \<^verbatim>\<open>!==\<close>; it returns false if and only if both reads succeed and the two
  references are equal.
\<close>

theorem isInIframe_characterisation:
  "(\<exists>b. isInIframe pf w = (Returned (JBool b), w)) \<and>
   (isInIframe pf w = (Returned (JBool True), w) \<longleftrightarrow>
      isl (window_top pf) \<or> isl (window_self pf) \<or>
      \<not> strict_eq (projr (window_top pf)) (projr (window_self pf))) \<and>
   (isInIframe pf w = (Returned (JBool False), w) \<longleftrightarrow>
      \<not> isl (window_top pf) \<and> \<not> isl (window_self pf) \<and>
      strict_eq (projr (window_top pf)) (projr (window_self pf)))"
  by (cases "window_top pf"; cases "window_self pf") (auto simp add: isInIframe_eval)

theorem isInIframe_characterisation_witness:
  "isl (window_top cross_origin_frame) \<and>
   isInIframe cross_origin_frame granted_world = (Returned (JBool True), granted_world) \<and>
   \<not> isl (window_top same_origin_frame) \<and> \<not> isl (window_self same_origin_frame) \<and>
   isInIframe same_origin_frame granted_world = (Returned (JBool True), granted_world) \<and>
   isInIframe desktop_browser granted_world = (Returned (JBool False), granted_world)"
  using isInIframe_characterisation [of cross_origin_frame granted_world]
    isInIframe_characterisation [of same_origin_frame granted_world]
    isInIframe_characterisation [of desktop_browser granted_world]
  by (simp add: example_defs)

section \<open>Exceptions of the guarded platform accesses\<close>




end
